theory Spec2Isabelle
  imports Complex_Main
begin

section \<open>The scrape endpoint of \<open>unified_server.py\<close>\<close>

text \<open>
  The development embeds the handler \<open>scrape_sources\<close> (\<open>POST /api/v1/scrape\<close>) of
  \<open>UnifiedServer._setup_routes\<close>, together with the request validation that the
  \<open>ScrapeRequest\<close> model declares, and proves properties of the responses it returns and of
  the state it changes: the cache, the four Prometheus metrics and the calls made to the
  scraping orchestrator.

  Conventions of the model.
  \<^item> Python strings are \<open>string\<close>: a \<open>char\<close> is a code point from 0 to 255, so the model
    covers the strings of such code points (Latin-1), \<open>len\<close> is \<open>length\<close>, and
    \<open>str.lower\<close> and \<open>str.strip\<close> are modelled as Python computes them on every such
    code point. Strings with a code point above 255 are not values of the type.
  \<^item> Readings of the clock (\<open>time.time()\<close>) and response times are real numbers.
  \<^item> The orchestrator and the clock are outside the handler; what they give during one call
    is an input of the model (\<open>call_env\<close>). The calls the handler makes to the orchestrator
    are recorded in the state (\<open>calls\<close>), so that "no scraper is invoked" is a statement
    about the state.
  \<^item> Calls of \<open>self.logger\<close> are left out: no property below is about the log.
\<close>

subsection \<open>Data model\<close>

text \<open>\<open>class ScrapeRequest(BaseModel)\<close>: \<open>sources\<close> is \<open>Optional[List[str]]\<close>.\<close>

record ScrapeRequest =
  query :: string
  sources :: "string list option"

text \<open>
  \<open>ScrapingResult\<close> is imported from \<open>academic_scraper\<close>; the handler reads the five
  attributes below. The payload \<open>data\<close> is opaque (\<open>Any\<close>): a type parameter.
\<close>

record 'd ScrapingResult =
  source :: string
  success :: bool
  data :: 'd
  error :: "string option"
  response_time :: "real option"

text \<open>The dictionary built for each result; its six keys are fixed.\<close>

record 'd result_dict =
  source :: string
  success :: bool
  data :: 'd
  error :: "string option"
  execution_time :: "real option"
  cached :: bool

text \<open>\<open>class ScrapeResponse(BaseModel)\<close>.\<close>

record 'd ScrapeResponse =
  success :: bool
  query :: string
  results :: "'d result_dict list"
  total_sources :: nat
  successful_sources :: nat
  execution_time :: real

subsection \<open>The cache adapter\<close>

text \<open>
  Modelled from the spec: the class \<open>CacheManager\<close> of the module \<open>cache_manager\<close>, which the
  handler calls as \<open>self.cache.get(cache_key)\<close> and \<open>self.cache.set(cache_key, response)\<close>.
  The spec gives its contract: an entry stores the value with its creation time and its
  time to live; \<open>get\<close> returns nothing if the key was never set or its time to live has
  elapsed, and the stored value otherwise; \<open>set\<close> writes the entry; expiry depends on the
  time elapsed since the write only. The handler passes no time to live, so the adapter's
  default is a field of the cache. The time of each operation is an argument.
\<close>

record 'v CacheEntry =
  stored :: 'v
  created :: real
  ttl :: real

record 'v CacheManager =
  store :: "string \<rightharpoonup> 'v CacheEntry"
  default_ttl :: real

text \<open>
  Modelled from the spec: an entry is live while the time elapsed since its write is below
  its time to live.
\<close>

definition entry_live :: "'v CacheEntry \<Rightarrow> real \<Rightarrow> bool" where
  "entry_live e now = (now - created e < ttl e)"

text \<open>
  Modelled from the spec: \<open>CacheManager.get\<close>, a miss for a key never set or an expired
  entry, the stored value otherwise; the store is left as it is.
\<close>

definition cache_get :: "'v CacheManager \<Rightarrow> real \<Rightarrow> string \<Rightarrow> 'v option" where
  "cache_get c now key =
     (case store c key of
        None \<Rightarrow> None
      | Some e \<Rightarrow> if entry_live e now then Some (stored e) else None)"

text \<open>
  Modelled from the spec: \<open>CacheManager.set\<close>, which (over)writes the entry of the key with
  the value, the time of the write and the default time to live.
\<close>

definition cache_set :: "'v CacheManager \<Rightarrow> real \<Rightarrow> string \<Rightarrow> 'v \<Rightarrow> 'v CacheManager" where
  "cache_set c now key v =
     c\<lparr>store := (store c)(key \<mapsto> \<lparr>stored = v, created = now, ttl = default_ttl c\<rparr>)\<rparr>"

subsection \<open>Server state and the environment of one call\<close>

text \<open>
  A call made to the orchestrator layer: \<open>create_scraping_orchestrator()\<close>, and
  \<open>orchestrator.scrape_all_sources(request.query, request.sources)\<close> with its arguments.
\<close>

datatype call = CreateOrchestrator | ScrapeAllSources string "string list option"

text \<open>
  The state the handler reads and writes: \<open>self.cache\<close>, the counters \<open>cache_hits\<close> and
  \<open>cache_misses\<close>, the labelled counter \<open>scrape_counter\<close> (number of \<open>inc()\<close> per label),
  the labelled histogram \<open>scrape_duration\<close> (the values observed per label, in order), and the
  trace of orchestrator calls.
\<close>

record 'd server_state =
  cache :: "'d ScrapeResponse CacheManager"
  cache_hits :: nat
  cache_misses :: nat
  scrape_counter :: "string \<Rightarrow> nat"
  scrape_duration :: "string \<Rightarrow> real list"
  calls :: "call list"

text \<open>
  What the orchestrator layer does when the handler calls it: creation raises, or
  \<open>scrape_all_sources\<close> raises, or it returns the list of results.
\<close>

datatype 'd outcome = CreateRaises | ScrapeRaises | Returned "'d ScrapingResult list"

text \<open>
  The environment of one call: the clock read at the start of the handler, inside
  \<open>cache.get\<close>, when the execution time is computed (on either path) and inside
  \<open>cache.set\<close>; and the behaviour of the orchestrator layer.
\<close>

record 'd call_env =
  t_start :: real
  t_get :: real
  t_end :: real
  t_set :: real
  orchestrator :: "'d outcome"

subsection \<open>The cache key\<close>

text \<open>
  \<open>str.lower()\<close> on one code point below 256: the letters A to Z (65 to 90) and the
  capital letters of Latin-1 (192 to 222, the multiplication sign 215 apart) move up by 32;
  every other code point is kept.
\<close>

definition lower_char :: "char \<Rightarrow> char" where
  "lower_char c =
     (let n = (of_char c :: nat)
      in if (65 \<le> n \<and> n \<le> 90) \<or> (192 \<le> n \<and> n \<le> 222 \<and> n \<noteq> 215)
         then char_of (n + 32)
         else c)"

definition lower :: "string \<Rightarrow> string" where
  "lower s = map lower_char s"

text \<open>
  White space of \<open>str.strip()\<close> below 256: the code points 9 to 13 and 28 to 32, the next
  line control 133 and the no-break space 160.
\<close>

definition is_space :: "char \<Rightarrow> bool" where
  "is_space c = ((of_char c :: nat) \<in> {9, 10, 11, 12, 13, 28, 29, 30, 31, 32, 133, 160})"

definition strip :: "string \<Rightarrow> string" where
  "strip s = rev (dropWhile is_space (rev (dropWhile is_space s)))"

text \<open>\<open>sep.join(xs)\<close>.\<close>

fun join :: "string \<Rightarrow> string list \<Rightarrow> string" where
  "join sep [] = []"
| "join sep [x] = x"
| "join sep (x # y # ys) = x @ sep @ join sep (y # ys)"

text \<open>\<open>request.sources or []\<close>: \<open>None\<close> and the empty list both give the empty list.\<close>

definition sources_or_empty :: "ScrapeRequest \<Rightarrow> string list" where
  "sources_or_empty request = (case sources request of None \<Rightarrow> [] | Some s \<Rightarrow> s)"

text \<open>
  \<open>cache_key = f"{request.query.lower().strip()}|{','.join(request.sources or [])}"\<close>
\<close>

definition cache_key :: "ScrapeRequest \<Rightarrow> string" where
  "cache_key request =
     strip (lower (ScrapeRequest.query request)) @ ''|'' @ join '','' (sources_or_empty request)"

subsection \<open>The handler\<close>

text \<open>
  The loop over \<open>results\<close>: for each result, \<open>scrape_counter.labels(result.source).inc()\<close>,
  then \<open>scrape_duration.labels(result.source).observe(result.response_time)\<close> if the
  response time is not \<open>None\<close>, then the dictionary is appended to \<open>results_data\<close>.
\<close>

definition to_result_dict :: "'d ScrapingResult \<Rightarrow> 'd result_dict" where
  "to_result_dict result =
     \<lparr> result_dict.source = ScrapingResult.source result,
       result_dict.success = ScrapingResult.success result,
       result_dict.data = ScrapingResult.data result,
       result_dict.error = ScrapingResult.error result,
       result_dict.execution_time = response_time result,
       cached = False \<rparr>"

definition counter_inc :: "(string \<Rightarrow> nat) \<Rightarrow> string \<Rightarrow> (string \<Rightarrow> nat)" where
  "counter_inc m label = m(label := m label + 1)"

definition histogram_observe :: "(string \<Rightarrow> real list) \<Rightarrow> string \<Rightarrow> real \<Rightarrow> (string \<Rightarrow> real list)" where
  "histogram_observe h label v = h(label := h label @ [v])"

fun convert_results ::
  "'d server_state \<Rightarrow> 'd ScrapingResult list \<Rightarrow> 'd result_dict list
     \<Rightarrow> 'd server_state \<times> 'd result_dict list" where
  "convert_results st [] results_data = (st, results_data)"
| "convert_results st (result # rest) results_data =
     (let st1 = st\<lparr>scrape_counter :=
                   counter_inc (scrape_counter st) (ScrapingResult.source result)\<rparr>;
          st2 = (case response_time result of
                   None \<Rightarrow> st1
                 | Some t \<Rightarrow>
                     st1\<lparr>scrape_duration :=
                       histogram_observe (scrape_duration st1) (ScrapingResult.source result) t\<rparr>)
      in convert_results st2 rest (results_data @ [to_result_dict result]))"

text \<open>The response of the \<open>except\<close> branch.\<close>

definition fallback_response :: "'d call_env \<Rightarrow> ScrapeRequest \<Rightarrow> 'd ScrapeResponse" where
  "fallback_response env request =
     \<lparr> success = False,
       query = ScrapeRequest.query request,
       results = [],
       total_sources = 0,
       successful_sources = 0,
       execution_time = t_end env - t_start env \<rparr>"

text \<open>
  The handler. A stored \<open>ScrapeResponse\<close> is a truthy object, so \<open>if cached:\<close> is the test
  that \<open>get\<close> returned a value. In the \<open>try\<close> block only the two orchestrator calls can
  raise in this model; both are caught by \<open>except Exception\<close>.
\<close>

definition scrape_sources ::
  "'d server_state \<Rightarrow> 'd call_env \<Rightarrow> ScrapeRequest \<Rightarrow> 'd ScrapeResponse \<times> 'd server_state" where
  "scrape_sources st env request =
     (case cache_get (cache st) (t_get env) (cache_key request) of
        Some cached_response \<Rightarrow> (cached_response, st\<lparr>cache_hits := cache_hits st + 1\<rparr>)
      | None \<Rightarrow>
          (let st0 = st\<lparr>cache_misses := cache_misses st + 1\<rparr> in
           case orchestrator env of
             CreateRaises \<Rightarrow>
               (fallback_response env request,
                st0\<lparr>calls := calls st0 @ [CreateOrchestrator]\<rparr>)
           | ScrapeRaises \<Rightarrow>
               (fallback_response env request,
                st0\<lparr>calls := calls st0 @
                  [CreateOrchestrator,
                   ScrapeAllSources (ScrapeRequest.query request) (sources request)]\<rparr>)
           | Returned rs \<Rightarrow>
               (let st1 = st0\<lparr>calls := calls st0 @
                            [CreateOrchestrator,
                             ScrapeAllSources (ScrapeRequest.query request) (sources request)]\<rparr>;
                    successful_results = filter ScrapingResult.success rs;
                    execution_time = t_end env - t_start env;
                    (st2, results_data) = convert_results st1 rs [];
                    response =
                      \<lparr> success = (length successful_results > 0),
                        query = ScrapeRequest.query request,
                        results = results_data,
                        total_sources = length rs,
                        successful_sources = length successful_results,
                        execution_time = execution_time \<rparr>
                in (response,
                    st2\<lparr>cache := cache_set (cache st2) (t_set env) (cache_key request) response\<rparr>))))"

text \<open>
  The endpoint as the framework runs it: the body is validated against \<open>ScrapeRequest\<close>
  (\<open>query\<close> with \<open>min_length=1, max_length=500\<close>) before the handler is called; a body that
  fails validation is answered with an error and the handler does not run.
\<close>

datatype error = ValidationError

definition valid_request :: "ScrapeRequest \<Rightarrow> bool" where
  "valid_request request =
     (1 \<le> length (ScrapeRequest.query request) \<and> length (ScrapeRequest.query request) \<le> 500)"

definition post_scrape ::
  "'d server_state \<Rightarrow> 'd call_env \<Rightarrow> ScrapeRequest
     \<Rightarrow> (error + 'd ScrapeResponse) \<times> 'd server_state" where
  "post_scrape st env request =
     (if valid_request request
      then (let (response, st') = scrape_sources st env request in (Inr response, st'))
      else (Inl ValidationError, st))"

text \<open>A sequence of requests served one after the other.\<close>

fun serve ::
  "'d server_state \<Rightarrow> ('d call_env \<times> ScrapeRequest) list
     \<Rightarrow> (error + 'd ScrapeResponse) list \<times> 'd server_state" where
  "serve st [] = ([], st)"
| "serve st ((env, request) # rest) =
     (let (r, st1) = post_scrape st env request;
          (rs, st2) = serve st1 rest
      in (r # rs, st2))"

text \<open>The state of a server that has served nothing: an empty cache, all metrics zero.\<close>

definition initial_state :: "real \<Rightarrow> 'd server_state" where
  "initial_state d =
     \<lparr> cache = \<lparr>store = Map.empty, default_ttl = d\<rparr>,
       cache_hits = 0,
       cache_misses = 0,
       scrape_counter = (\<lambda>_. 0),
       scrape_duration = (\<lambda>_. []),
       calls = [] \<rparr>"

subsection \<open>Notions used to state the properties\<close>

text \<open>
  The response the \<open>try\<close> block builds, written as a function of the orchestrator's
  results (lemma \<open>scrape_sources_returned_response\<close> shows that the handler returns it).
\<close>

definition aggregate ::
  "'d call_env \<Rightarrow> ScrapeRequest \<Rightarrow> 'd ScrapingResult list \<Rightarrow> 'd ScrapeResponse" where
  "aggregate env request rs =
     \<lparr> success = (length (filter ScrapingResult.success rs) > 0),
       query = ScrapeRequest.query request,
       results = map to_result_dict rs,
       total_sources = length rs,
       successful_sources = length (filter ScrapingResult.success rs),
       execution_time = t_end env - t_start env \<rparr>"

text \<open>
  The response times that the results of one source carry, in the order of the results:
  a result of another source, or one whose response time is \<open>None\<close>, contributes nothing.
\<close>

definition observations :: "string \<Rightarrow> 'd ScrapingResult list \<Rightarrow> real list" where
  "observations label rs =
     concat (map (\<lambda>r. if ScrapingResult.source r = label
                       then (case response_time r of None \<Rightarrow> [] | Some t \<Rightarrow> [t])
                       else []) rs)"

text \<open>A property of responses holds of every entry the cache stores, live or expired.\<close>

definition cache_all :: "('v \<Rightarrow> bool) \<Rightarrow> 'v CacheManager \<Rightarrow> bool" where
  "cache_all P c = (\<forall>e \<in> ran (store c). P (stored e))"

definition response_consistent :: "'d ScrapeResponse \<Rightarrow> bool" where
  "response_consistent r =
     (successful_sources r \<le> total_sources r \<and> (success r = (0 < successful_sources r)))"

definition unflagged :: "'d ScrapeResponse \<Rightarrow> bool" where
  "unflagged r = (\<forall>d \<in> set (results r). \<not> cached d)"

text \<open>
  Every entry is stored under the cache key of a request that carries the query of the
  stored response: what a cache written by the handler looks like.
\<close>

definition cache_keyed :: "'d ScrapeResponse CacheManager \<Rightarrow> bool" where
  "cache_keyed c =
     (\<forall>k e. store c k = Some e \<longrightarrow>
        (\<exists>s. cache_key \<lparr>ScrapeRequest.query = query (stored e), sources = s\<rparr> = k))"

subsection \<open>Concrete requests, environments and states\<close>

definition example_request :: ScrapeRequest where
  "example_request =
     \<lparr> ScrapeRequest.query = ''Neural Networks'', sources = Some [''wikipedia'', ''pubmed''] \<rparr>"

definition swapped_request :: ScrapeRequest where
  "swapped_request =
     \<lparr> ScrapeRequest.query = ''Neural Networks'', sources = Some [''pubmed'', ''wikipedia''] \<rparr>"

definition padded_request :: ScrapeRequest where
  "padded_request =
     \<lparr> ScrapeRequest.query = '' neural networks  '', sources = Some [''wikipedia'', ''pubmed''] \<rparr>"

definition empty_request :: ScrapeRequest where
  "empty_request = \<lparr> ScrapeRequest.query = [], sources = None \<rparr>"

definition long_request :: ScrapeRequest where
  "long_request = \<lparr> ScrapeRequest.query = replicate 501 (CHR ''a''), sources = None \<rparr>"

text \<open>Wikipedia answers in a quarter of a second; PubMed fails and reports no time.\<close>

definition example_results :: "string ScrapingResult list" where
  "example_results =
     [\<lparr> ScrapingResult.source = ''wikipedia'', ScrapingResult.success = True,
        ScrapingResult.data = ''article'', ScrapingResult.error = None,
        response_time = Some (1 / 4) \<rparr>,
      \<lparr> ScrapingResult.source = ''pubmed'', ScrapingResult.success = False,
        ScrapingResult.data = [], ScrapingResult.error = Some ''not found'',
        response_time = None \<rparr>]"

definition example_response :: "string ScrapeResponse" where
  "example_response =
     \<lparr> success = True, query = ''Neural Networks'',
       results =
         [\<lparr> result_dict.source = ''wikipedia'', result_dict.success = True,
            result_dict.data = ''article'', result_dict.error = None,
            result_dict.execution_time = Some (1 / 4), cached = False \<rparr>,
          \<lparr> result_dict.source = ''pubmed'', result_dict.success = False,
            result_dict.data = [], result_dict.error = Some ''not found'',
            result_dict.execution_time = None, cached = False \<rparr>],
       total_sources = 2, successful_sources = 1, execution_time = 1 \<rparr>"

text \<open>
  Three calls: one at time 100 whose dispatch returns \<open>example_results\<close>, one at time 110
  (ten seconds later, well within a time to live of 60), and one at time 90 on which the
  orchestrator cannot be created.
\<close>

definition env_fresh :: "string call_env" where
  "env_fresh = \<lparr> t_start = 100, t_get = 100, t_end = 101, t_set = 101,
                  orchestrator = Returned example_results \<rparr>"

definition env_again :: "string call_env" where
  "env_again = \<lparr> t_start = 110, t_get = 110, t_end = 112, t_set = 112,
                  orchestrator = Returned [] \<rparr>"

definition env_failing :: "string call_env" where
  "env_failing = \<lparr> t_start = 90, t_get = 90, t_end = 92, t_set = 92,
                    orchestrator = CreateRaises \<rparr>"

definition state0 :: "string server_state" where
  "state0 = initial_state 60"

definition state1 :: "string server_state" where
  "state1 = snd (scrape_sources state0 env_fresh example_request)"

definition state_failed :: "string server_state" where
  "state_failed = snd (scrape_sources state0 env_failing example_request)"

section \<open>Lemmas about the model\<close>

subsection \<open>The loop over the results\<close>

lemma convert_results_data:
  "snd (convert_results st rs acc) = acc @ map to_result_dict rs"
  by (induction rs arbitrary: st acc) (simp_all add: Let_def)

lemma convert_results_counter:
  "scrape_counter (fst (convert_results st rs acc)) label =
     scrape_counter st label + length (filter (\<lambda>r. ScrapingResult.source r = label) rs)"
  by (induction rs arbitrary: st acc)
     (simp_all add: Let_def counter_inc_def split: option.split)

lemma convert_results_duration:
  "scrape_duration (fst (convert_results st rs acc)) label =
     scrape_duration st label @ observations label rs"
  by (induction rs arbitrary: st acc)
     (simp_all add: Let_def histogram_observe_def observations_def split: option.split)

lemma convert_results_frame:
  "cache (fst (convert_results st rs acc)) = cache st \<and>
   cache_hits (fst (convert_results st rs acc)) = cache_hits st \<and>
   cache_misses (fst (convert_results st rs acc)) = cache_misses st \<and>
   calls (fst (convert_results st rs acc)) = calls st"
  by (induction rs arbitrary: st acc) (simp_all add: Let_def split: option.split)

subsection \<open>The three paths of the handler\<close>

lemma scrape_sources_hit:
  "cache_get (cache st) (t_get env) (cache_key request) = Some c \<Longrightarrow>
   scrape_sources st env request = (c, st\<lparr>cache_hits := cache_hits st + 1\<rparr>)"
  by (simp add: scrape_sources_def)

lemma scrape_sources_create_raises:
  "cache_get (cache st) (t_get env) (cache_key request) = None \<Longrightarrow>
   orchestrator env = CreateRaises \<Longrightarrow>
   scrape_sources st env request =
     (fallback_response env request,
      st\<lparr>cache_misses := cache_misses st + 1, calls := calls st @ [CreateOrchestrator]\<rparr>)"
  by (simp add: scrape_sources_def)

lemma scrape_sources_scrape_raises:
  "cache_get (cache st) (t_get env) (cache_key request) = None \<Longrightarrow>
   orchestrator env = ScrapeRaises \<Longrightarrow>
   scrape_sources st env request =
     (fallback_response env request,
      st\<lparr>cache_misses := cache_misses st + 1,
         calls := calls st @ [CreateOrchestrator,
           ScrapeAllSources (ScrapeRequest.query request) (sources request)]\<rparr>)"
  by (simp add: scrape_sources_def)

lemma scrape_sources_returned_response:
  "cache_get (cache st) (t_get env) (cache_key request) = None \<Longrightarrow>
   orchestrator env = Returned rs \<Longrightarrow>
   fst (scrape_sources st env request) = aggregate env request rs"
  using convert_results_data [of _ rs "[]"]
  by (simp add: scrape_sources_def aggregate_def Let_def split: prod.split) (metis snd_conv)

lemma scrape_sources_returned_state:
  assumes "cache_get (cache st) (t_get env) (cache_key request) = None"
    and "orchestrator env = Returned rs"
  shows "cache (snd (scrape_sources st env request)) =
           cache_set (cache st) (t_set env) (cache_key request) (aggregate env request rs)"
    and "cache_hits (snd (scrape_sources st env request)) = cache_hits st"
    and "cache_misses (snd (scrape_sources st env request)) = cache_misses st + 1"
    and "calls (snd (scrape_sources st env request)) =
           calls st @ [CreateOrchestrator,
             ScrapeAllSources (ScrapeRequest.query request) (sources request)]"
    and "scrape_counter (snd (scrape_sources st env request)) label =
           scrape_counter st label +
           length (filter (\<lambda>r. ScrapingResult.source r = label) rs)"
    and "scrape_duration (snd (scrape_sources st env request)) label =
           scrape_duration st label @ observations label rs"
proof -
  let ?st1 = "st\<lparr>cache_misses := cache_misses st + 1,
                 calls := calls st @ [CreateOrchestrator,
                   ScrapeAllSources (ScrapeRequest.query request) (sources request)]\<rparr>"
  obtain st2 rd where cr: "convert_results ?st1 rs [] = (st2, rd)"
    by (cases "convert_results ?st1 rs []")
  have rd: "rd = map to_result_dict rs"
    using convert_results_data [of ?st1 rs "[]"] cr by simp
  have st2: "st2 = fst (convert_results ?st1 rs [])" using cr by simp
  have s: "snd (scrape_sources st env request) =
        st2\<lparr>cache := cache_set (cache st2) (t_set env) (cache_key request)
                        (aggregate env request rs)\<rparr>"
    using assms cr rd by (simp add: scrape_sources_def aggregate_def Let_def)
  have fr: "cache st2 = cache ?st1" "cache_hits st2 = cache_hits ?st1"
      "cache_misses st2 = cache_misses ?st1" "calls st2 = calls ?st1"
    using convert_results_frame [of ?st1 rs "[]"] st2 by simp_all
  show "cache (snd (scrape_sources st env request)) =
           cache_set (cache st) (t_set env) (cache_key request) (aggregate env request rs)"
    using s fr by simp
  show "cache_hits (snd (scrape_sources st env request)) = cache_hits st"
    using s fr by simp
  show "cache_misses (snd (scrape_sources st env request)) = cache_misses st + 1"
    using s fr by simp
  show "calls (snd (scrape_sources st env request)) =
           calls st @ [CreateOrchestrator,
             ScrapeAllSources (ScrapeRequest.query request) (sources request)]"
    using s fr by simp
  show "scrape_counter (snd (scrape_sources st env request)) label =
           scrape_counter st label +
           length (filter (\<lambda>r. ScrapingResult.source r = label) rs)"
    using s st2 convert_results_counter [of ?st1 rs "[]" label] by simp
  show "scrape_duration (snd (scrape_sources st env request)) label =
           scrape_duration st label @ observations label rs"
    using s st2 convert_results_duration [of ?st1 rs "[]" label] by simp
qed

lemma scrape_sources_cache:
  "cache (snd (scrape_sources st env request)) =
     (case cache_get (cache st) (t_get env) (cache_key request) of
        Some c \<Rightarrow> cache st
      | None \<Rightarrow>
          (case orchestrator env of
             Returned rs \<Rightarrow>
               cache_set (cache st) (t_set env) (cache_key request) (aggregate env request rs)
           | _ \<Rightarrow> cache st))"
proof (cases "cache_get (cache st) (t_get env) (cache_key request)")
  case None
  then show ?thesis
    by (cases "orchestrator env")
       (simp_all add: scrape_sources_create_raises scrape_sources_scrape_raises
          scrape_sources_returned_state(1))
next
  case (Some c)
  then show ?thesis by (simp add: scrape_sources_hit)
qed

lemma scrape_sources_response:
  "fst (scrape_sources st env request) =
     (case cache_get (cache st) (t_get env) (cache_key request) of
        Some c \<Rightarrow> c
      | None \<Rightarrow>
          (case orchestrator env of
             Returned rs \<Rightarrow> aggregate env request rs
           | _ \<Rightarrow> fallback_response env request))"
proof (cases "cache_get (cache st) (t_get env) (cache_key request)")
  case None
  then show ?thesis
    by (cases "orchestrator env")
       (simp_all add: scrape_sources_create_raises scrape_sources_scrape_raises
          scrape_sources_returned_response)
next
  case (Some c)
  then show ?thesis by (simp add: scrape_sources_hit)
qed

subsection \<open>Properties of responses that the cache preserves\<close>

lemma cache_all_empty: "store c = Map.empty \<Longrightarrow> cache_all P c"
  by (simp add: cache_all_def)

lemma cache_all_get: "cache_all P c \<Longrightarrow> cache_get c now key = Some v \<Longrightarrow> P v"
  by (auto simp: cache_all_def cache_get_def ran_def split: option.splits if_splits)

lemma cache_all_set: "cache_all P c \<Longrightarrow> P v \<Longrightarrow> cache_all P (cache_set c now key v)"
  by (auto simp: cache_all_def cache_set_def ran_def split: if_splits)

lemma cache_get_mono:
  "cache_get c t1 key = None \<Longrightarrow> t1 \<le> t2 \<Longrightarrow> cache_get c t2 key = None"
  by (auto simp: cache_get_def entry_live_def split: option.splits if_splits)

lemma scrape_sources_invariant:
  assumes inv: "cache_all P (cache st)"
    and agg: "\<And>rs. P (aggregate env request rs)"
    and fb: "P (fallback_response env request)"
  shows "P (fst (scrape_sources st env request))"
    and "cache_all P (cache (snd (scrape_sources st env request)))"
proof -
  show "P (fst (scrape_sources st env request))"
    using inv agg fb
    by (auto simp: scrape_sources_response dest: cache_all_get
          split: option.split outcome.split)
  show "cache_all P (cache (snd (scrape_sources st env request)))"
    using inv agg
    by (auto simp: scrape_sources_cache intro: cache_all_set
          split: option.split outcome.split)
qed

text \<open>
  A property that holds of every aggregated response and of every fallback response, and of
  every entry of the cache at the start, holds of every response served.
\<close>

lemma serve_invariant:
  assumes agg: "\<And>env request rs. P (aggregate env request rs)"
    and fb: "\<And>env request. P (fallback_response env request)"
  shows "cache_all P (cache st) \<Longrightarrow> Inr r \<in> set (fst (serve st reqs)) \<Longrightarrow> P r"
proof (induction reqs arbitrary: st)
  case Nil
  then show ?case by simp
next
  case (Cons a reqs)
  obtain env request where a: "a = (env, request)" by (cases a)
  show ?case
  proof (cases "valid_request request")
    case False
    then have "post_scrape st env request = (Inl ValidationError, st)"
      by (simp add: post_scrape_def)
    with Cons.prems a have "Inr r \<in> set (fst (serve st reqs))"
      by (simp add: split_beta Let_def)
    with Cons.IH Cons.prems(1) show ?thesis by blast
  next
    case True
    let ?p = "scrape_sources st env request"
    have ps: "post_scrape st env request = (Inr (fst ?p), snd ?p)"
      using True by (simp add: post_scrape_def split_beta)
    have "r = fst ?p \<or> Inr r \<in> set (fst (serve (snd ?p) reqs))"
      using Cons.prems(2) a ps by (simp add: split_beta Let_def)
    then show ?thesis
    proof
      assume "r = fst ?p"
      then show ?thesis
        using scrape_sources_invariant(1) [of P st env request] Cons.prems(1) agg fb by simp
    next
      assume "Inr r \<in> set (fst (serve (snd ?p) reqs))"
      moreover have "cache_all P (cache (snd ?p))"
        using scrape_sources_invariant(2) [of P st env request] Cons.prems(1) agg fb by simp
      ultimately show ?thesis using Cons.IH by blast
    qed
  qed
qed

lemma aggregate_consistent: "response_consistent (aggregate env request rs)"
  by (simp add: response_consistent_def aggregate_def)

lemma fallback_consistent: "response_consistent (fallback_response env request)"
  by (simp add: response_consistent_def fallback_response_def)

lemma aggregate_unflagged: "unflagged (aggregate env request rs)"
  by (auto simp: unflagged_def aggregate_def to_result_dict_def)

lemma fallback_unflagged: "unflagged (fallback_response env request)"
  by (simp add: unflagged_def fallback_response_def)

subsection \<open>The format of the cache key\<close>

text \<open>
  \<open>join\<close> writes the first identifier and then each further one after a comma; on
  identifiers that contain no comma the joined string determines the list.
\<close>

lemma join_concat: "join sep (x # xs) = x @ concat (map (\<lambda>y. sep @ y) xs)"
  by (induction xs arbitrary: x) simp_all

lemma field_split:
  assumes "CHR '','' \<notin> set x"
  shows "takeWhile (\<lambda>c. c \<noteq> CHR '','') (x @ concat (map (\<lambda>y. CHR '','' # y) zs)) = x"
    and "dropWhile (\<lambda>c. c \<noteq> CHR '','') (x @ concat (map (\<lambda>y. CHR '','' # y) zs)) =
           concat (map (\<lambda>y. CHR '','' # y) zs)"
proof -
  have all: "\<And>c. c \<in> set x \<Longrightarrow> c \<noteq> CHR '',''" using assms by auto
  show "takeWhile (\<lambda>c. c \<noteq> CHR '','') (x @ concat (map (\<lambda>y. CHR '','' # y) zs)) = x"
    by (cases zs) (simp_all add: takeWhile_append2 all)
  show "dropWhile (\<lambda>c. c \<noteq> CHR '','') (x @ concat (map (\<lambda>y. CHR '','' # y) zs)) =
           concat (map (\<lambda>y. CHR '','' # y) zs)"
    by (cases zs) (simp_all add: dropWhile_append2 all)
qed

lemma field_eq:
  assumes "CHR '','' \<notin> set x" and "CHR '','' \<notin> set y"
    and "x @ concat (map (\<lambda>y. CHR '','' # y) xs) = y @ concat (map (\<lambda>y. CHR '','' # y) ys)"
  shows "x = y \<and> concat (map (\<lambda>y. CHR '','' # y) xs) = concat (map (\<lambda>y. CHR '','' # y) ys)"
proof -
  have "x = y"
    using field_split(1) [OF assms(1), of xs] field_split(1) [OF assms(2), of ys] assms(3)
    by simp
  with assms(3) show ?thesis by simp
qed

lemma comma_fields_inj:
  "\<forall>x \<in> set xs. CHR '','' \<notin> set x \<Longrightarrow> \<forall>y \<in> set ys. CHR '','' \<notin> set y \<Longrightarrow>
   concat (map (\<lambda>y. CHR '','' # y) xs) = concat (map (\<lambda>y. CHR '','' # y) ys) \<Longrightarrow> xs = ys"
proof (induction xs arbitrary: ys)
  case Nil
  then show ?case by (cases ys) simp_all
next
  case (Cons x xs)
  then obtain y ys' where ys: "ys = y # ys'" by (cases ys) auto
  from Cons.prems(3) ys
  have "x @ concat (map (\<lambda>y. CHR '','' # y) xs) = y @ concat (map (\<lambda>y. CHR '','' # y) ys')"
    by simp
  then have "x = y \<and> concat (map (\<lambda>y. CHR '','' # y) xs) = concat (map (\<lambda>y. CHR '','' # y) ys')"
    using field_eq [of x y xs ys'] Cons.prems(1,2) ys by simp
  moreover then have "xs = ys'"
    using Cons.IH [of ys'] Cons.prems(1,2) ys by simp
  ultimately show ?case using ys by simp
qed

lemma join_inj:
  assumes plain: "\<forall>x \<in> set xs \<union> set ys. x \<noteq> [] \<and> CHR '','' \<notin> set x"
    and eq: "join '','' xs = join '','' ys"
  shows "xs = ys"
proof (cases xs)
  case Nil
  show ?thesis
  proof (cases ys)
    case Nil
    with \<open>xs = []\<close> show ?thesis by simp
  next
    case (Cons y ys')
    with plain have "y \<noteq> []" by simp
    with eq \<open>xs = []\<close> Cons show ?thesis by (simp add: join_concat)
  qed
next
  case (Cons x xs')
  show ?thesis
  proof (cases ys)
    case Nil
    from plain Cons have "x \<noteq> []" by simp
    with eq Cons Nil show ?thesis by (simp add: join_concat)
  next
    case (Cons y ys')
    from eq \<open>xs = x # xs'\<close> Cons
    have "x @ concat (map (\<lambda>y. CHR '','' # y) xs') = y @ concat (map (\<lambda>y. CHR '','' # y) ys')"
      by (simp add: join_concat)
    then have "x = y \<and> concat (map (\<lambda>y. CHR '','' # y) xs') = concat (map (\<lambda>y. CHR '','' # y) ys')"
      using field_eq [of x y xs' ys'] plain \<open>xs = x # xs'\<close> Cons by simp
    moreover then have "xs' = ys'"
      using comma_fields_inj [of xs' ys'] plain \<open>xs = x # xs'\<close> Cons by simp
    ultimately show ?thesis using \<open>xs = x # xs'\<close> Cons by simp
  qed
qed

lemma cache_key_formula:
  "cache_key r =
     strip (lower (ScrapeRequest.query r)) @ ''|'' @
     (case sources r of
        None \<Rightarrow> []
      | Some [] \<Rightarrow> []
      | Some (s # ss) \<Rightarrow> s @ concat (map (\<lambda>x. CHR '','' # x) ss))"
  by (simp add: cache_key_def sources_or_empty_def join_concat split: option.split list.split)

subsection \<open>The concrete calls, evaluated\<close>

lemma example_key: "cache_key example_request = ''neural networks|wikipedia,pubmed''"
  by (simp add: cache_key_def example_request_def sources_or_empty_def strip_def lower_def
        lower_char_def is_space_def char_of_def bit_Suc_0_iff)

lemma padded_key: "cache_key padded_request = ''neural networks|wikipedia,pubmed''"
  by (simp add: cache_key_def padded_request_def sources_or_empty_def strip_def lower_def
        lower_char_def is_space_def char_of_def bit_Suc_0_iff)

lemma swapped_key: "cache_key swapped_request = ''neural networks|pubmed,wikipedia''"
  by (simp add: cache_key_def swapped_request_def sources_or_empty_def strip_def lower_def
        lower_char_def is_space_def char_of_def bit_Suc_0_iff)

lemma example_valid: "valid_request example_request"
  by (simp add: valid_request_def example_request_def)

lemma state0_miss: "cache_get (cache state0) t key = None"
  by (simp add: state0_def initial_state_def cache_get_def)

lemma example_aggregate:
  "aggregate env_fresh example_request example_results = example_response"
  by (simp add: aggregate_def env_fresh_def example_request_def example_results_def
        example_response_def to_result_dict_def)

lemma env_fresh_orchestrator: "orchestrator env_fresh = Returned example_results"
  by (simp add: env_fresh_def)

lemma env_failing_orchestrator: "orchestrator env_failing = CreateRaises"
  by (simp add: env_failing_def)

lemma first_response:
  "fst (scrape_sources state0 env_fresh example_request) = example_response"
  by (simp add: scrape_sources_returned_response [OF state0_miss env_fresh_orchestrator]
        example_aggregate)

lemma state1_cache:
  "cache state1 =
     \<lparr> store = [''neural networks|wikipedia,pubmed'' \<mapsto>
                  \<lparr>stored = example_response, created = 101, ttl = 60\<rparr>],
       default_ttl = 60 \<rparr>"
  unfolding state1_def
  by (simp add: scrape_sources_returned_state(1) [OF state0_miss env_fresh_orchestrator]
        example_aggregate example_key)
     (simp add: cache_set_def state0_def initial_state_def env_fresh_def)

lemma state1_hit:
  "cache_get (cache state1) (t_get env_again) ''neural networks|wikipedia,pubmed'' =
     Some example_response"
  by (simp add: state1_cache cache_get_def entry_live_def env_again_def)

lemma state1_hits: "cache_hits state1 = 0" "cache_misses state1 = 1"
  unfolding state1_def
  by (simp_all add: scrape_sources_returned_state(2,3) [OF state0_miss env_fresh_orchestrator])
     (simp_all add: state0_def initial_state_def)

lemma second_call:
  "scrape_sources state1 env_again example_request =
     (example_response, state1\<lparr>cache_hits := 1\<rparr>)"
  using scrape_sources_hit [of state1 env_again example_request example_response]
  by (simp add: example_key state1_hit state1_hits)

lemma padded_call:
  "scrape_sources state1 env_again padded_request =
     (example_response, state1\<lparr>cache_hits := 1\<rparr>)"
  using scrape_sources_hit [of state1 env_again padded_request example_response]
  by (simp add: padded_key state1_hit state1_hits)

lemma example_serve:
  "serve state0 [(env_fresh, example_request), (env_again, example_request)] =
     ([Inr example_response, Inr example_response], state1\<lparr>cache_hits := 1\<rparr>)"
proof -
  have 1: "post_scrape state0 env_fresh example_request = (Inr example_response, state1)"
    using first_response
    by (simp add: post_scrape_def example_valid split_beta state1_def)
  have 2: "post_scrape state1 env_again example_request =
             (Inr example_response, state1\<lparr>cache_hits := 1\<rparr>)"
    by (simp add: post_scrape_def example_valid second_call)
  show ?thesis by (simp add: 1 2)
qed

lemma failed_call:
  "scrape_sources state0 env_failing example_request =
     (\<lparr> success = False, query = ''Neural Networks'', results = [], total_sources = 0,
        successful_sources = 0, execution_time = 2 \<rparr>,
      state0\<lparr>cache_misses := 1, calls := [CreateOrchestrator]\<rparr>)"
  by (simp add: scrape_sources_create_raises [OF state0_miss env_failing_orchestrator]
        fallback_response_def)
     (simp add: env_failing_def example_request_def state0_def initial_state_def)

lemma state_failed_eq:
  "state_failed = state0\<lparr>cache_misses := 1, calls := [CreateOrchestrator]\<rparr>"
  by (simp add: state_failed_def failed_call)

lemma state_failed_miss: "cache_get (cache state_failed) t key = None"
  by (simp add: state_failed_eq state0_miss)

lemma retry_response:
  "fst (scrape_sources state_failed env_fresh example_request) = example_response"
  by (simp add: scrape_sources_returned_response [OF state_failed_miss env_fresh_orchestrator]
        example_aggregate)

lemma retry_calls:
  "calls (snd (scrape_sources state_failed env_fresh example_request)) =
     [CreateOrchestrator, CreateOrchestrator,
      ScrapeAllSources ''Neural Networks'' (Some [''wikipedia'', ''pubmed''])]"
  by (simp add: scrape_sources_returned_state(4) [OF state_failed_miss env_fresh_orchestrator])
     (simp add: state_failed_eq example_request_def)

section \<open>The claims\<close>

subsection \<open>C1: the counts of a response are consistent\<close>

text \<open>
  C1. Every response the scrape endpoint returns, whether freshly computed, served from the
  cache or the fallback after a dispatch failure, has
  \<open>successful_sources \<le> total_sources\<close>, and \<open>success\<close> is true if and only if
  \<open>successful_sources > 0\<close>. The statement is about any sequence of requests served from a
  state whose cache holds consistent responses only; the empty cache of a server that has
  just started is one.
\<close>

theorem C1_response_counts_consistent:
  assumes "cache_all response_consistent (cache st)"
    and "Inr r \<in> set (fst (serve st reqs))"
  shows "successful_sources r \<le> total_sources r \<and> (success r \<longleftrightarrow> 0 < successful_sources r)"
proof -
  have "response_consistent r"
    using serve_invariant [of response_consistent st r reqs] assms
      aggregate_consistent fallback_consistent by blast
  then show ?thesis by (simp add: response_consistent_def)
qed

text \<open>
  The same request served twice from the initial state: the second response comes from the
  cache, and has one successful source out of two.
\<close>

theorem C1_response_counts_consistent_witness:
  "cache_all response_consistent (cache state0) \<and>
   Inr example_response \<in>
     set (fst (serve state0 [(env_fresh, example_request), (env_again, example_request)])) \<and>
   successful_sources example_response \<le> total_sources example_response \<and>
   (success example_response \<longleftrightarrow> 0 < successful_sources example_response) \<and>
   successful_sources example_response = 1 \<and> total_sources example_response = 2"
proof -
  have c: "cache_all response_consistent (cache state0)"
    by (rule cache_all_empty) (simp add: state0_def initial_state_def)
  have m: "Inr example_response \<in>
     set (fst (serve state0 [(env_fresh, example_request), (env_again, example_request)]))"
    unfolding example_serve by simp
  show ?thesis
    using c m C1_response_counts_consistent [OF c m]
    by (simp add: example_response_def)
qed

subsection \<open>C2: the cache key\<close>

text \<open>
  C2 as it is written fails: the source identifiers are joined in the order of the request
  and are not sorted. Two requests with the same query and the same identifiers in another
  order have different keys.
\<close>

theorem C2_counterexample:
  "strip (lower (ScrapeRequest.query example_request)) =
     strip (lower (ScrapeRequest.query swapped_request)) \<and>
   set (sources_or_empty example_request) = set (sources_or_empty swapped_request) \<and>
   cache_key example_request = ''neural networks|wikipedia,pubmed'' \<and>
   cache_key swapped_request = ''neural networks|pubmed,wikipedia'' \<and>
   cache_key example_request \<noteq> cache_key swapped_request"
  by (simp add: example_key swapped_key)
     (auto simp: example_request_def swapped_request_def sources_or_empty_def)

text \<open>
  C2, amended. The cache key of a scrape request is the normalized (lower-cased, then
  trimmed) query, a vertical bar, and the requested source identifiers in the order of the
  request, each after the first preceded by a comma; they are not sorted, and an absent
  list counts as the empty one. Hence two requests whose queries normalize to the same
  string and whose source lists are the same sequence have the same cache key; and the
  order matters: when no identifier is empty or contains a comma, two requests with the
  same normalized query have the same key only if their source lists are the same sequence.
\<close>

theorem C2_cache_key_in_request_order:
  "cache_key r =
     strip (lower (ScrapeRequest.query r)) @ ''|'' @
     (case sources r of
        None \<Rightarrow> []
      | Some [] \<Rightarrow> []
      | Some (s # ss) \<Rightarrow> s @ concat (map (\<lambda>x. CHR '','' # x) ss)) \<and>
   (strip (lower (ScrapeRequest.query r1)) = strip (lower (ScrapeRequest.query r2)) \<longrightarrow>
      (sources_or_empty r1 = sources_or_empty r2 \<longrightarrow> cache_key r1 = cache_key r2) \<and>
      ((\<forall>x \<in> set (sources_or_empty r1) \<union> set (sources_or_empty r2).
           x \<noteq> [] \<and> CHR '','' \<notin> set x) \<and>
       cache_key r1 = cache_key r2 \<longrightarrow> sources_or_empty r1 = sources_or_empty r2))"
proof (intro conjI impI)
  show "cache_key r =
     strip (lower (ScrapeRequest.query r)) @ ''|'' @
     (case sources r of
        None \<Rightarrow> []
      | Some [] \<Rightarrow> []
      | Some (s # ss) \<Rightarrow> s @ concat (map (\<lambda>x. CHR '','' # x) ss))"
    by (rule cache_key_formula)
next
  assume "strip (lower (ScrapeRequest.query r1)) = strip (lower (ScrapeRequest.query r2))"
    and "sources_or_empty r1 = sources_or_empty r2"
  then show "cache_key r1 = cache_key r2" by (simp add: cache_key_def)
next
  assume q: "strip (lower (ScrapeRequest.query r1)) = strip (lower (ScrapeRequest.query r2))"
    and h: "(\<forall>x \<in> set (sources_or_empty r1) \<union> set (sources_or_empty r2).
           x \<noteq> [] \<and> CHR '','' \<notin> set x) \<and> cache_key r1 = cache_key r2"
  from q h have "join '','' (sources_or_empty r1) = join '','' (sources_or_empty r2)"
    by (simp add: cache_key_def)
  with h show "sources_or_empty r1 = sources_or_empty r2"
    using join_inj [of "sources_or_empty r1" "sources_or_empty r2"] by blast
qed

text \<open>
  The key of the example request written out; a query that differs in letter case and
  surrounding white space only gives the same key, the same identifiers in another order
  give another key.
\<close>

theorem C2_cache_key_in_request_order_witness:
  "cache_key example_request = ''neural networks'' @ ''|'' @ ''wikipedia'' @ '','' @ ''pubmed'' \<and>
   strip (lower (ScrapeRequest.query example_request)) = ''neural networks'' \<and>
   strip (lower (ScrapeRequest.query padded_request)) = ''neural networks'' \<and>
   strip (lower (ScrapeRequest.query swapped_request)) = ''neural networks'' \<and>
   sources_or_empty example_request = sources_or_empty padded_request \<and>
   cache_key example_request = cache_key padded_request \<and>
   sources_or_empty example_request = [''wikipedia'', ''pubmed''] \<and>
   sources_or_empty swapped_request = [''pubmed'', ''wikipedia''] \<and>
   cache_key example_request \<noteq> cache_key swapped_request"
proof -
  have 1: "strip (lower (ScrapeRequest.query example_request)) = ''neural networks''"
    by (simp add: example_request_def strip_def lower_def lower_char_def is_space_def
          char_of_def bit_Suc_0_iff)
  have 2: "strip (lower (ScrapeRequest.query padded_request)) = ''neural networks''"
    by (simp add: padded_request_def strip_def lower_def lower_char_def is_space_def
          char_of_def bit_Suc_0_iff)
  have 3: "strip (lower (ScrapeRequest.query swapped_request)) = ''neural networks''"
    by (simp add: swapped_request_def strip_def lower_def lower_char_def is_space_def
          char_of_def bit_Suc_0_iff)
  have s1: "sources_or_empty example_request = [''wikipedia'', ''pubmed'']"
    by (simp add: example_request_def sources_or_empty_def)
  have s2: "sources_or_empty padded_request = [''wikipedia'', ''pubmed'']"
    by (simp add: padded_request_def sources_or_empty_def)
  have s3: "sources_or_empty swapped_request = [''pubmed'', ''wikipedia'']"
    by (simp add: swapped_request_def sources_or_empty_def)
  have src: "sources example_request = Some [''wikipedia'', ''pubmed'']"
    by (simp add: example_request_def)
  have k: "cache_key example_request =
             ''neural networks'' @ ''|'' @ ''wikipedia'' @ '','' @ ''pubmed''"
    using C2_cache_key_in_request_order [of example_request example_request example_request, THEN conjunct1] 1 src
    by simp
  have same: "cache_key example_request = cache_key padded_request"
    using C2_cache_key_in_request_order [of example_request example_request padded_request, THEN conjunct2] 1 2 s1 s2
    by simp
  have diff: "cache_key example_request \<noteq> cache_key swapped_request"
    using C2_cache_key_in_request_order [of example_request example_request swapped_request, THEN conjunct2] 1 3 s1 s3
    by auto
  show ?thesis using k 1 2 3 s1 s2 s3 same diff by simp
qed

subsection \<open>C3: the fallback after a dispatch failure\<close>

text \<open>
  C3. For every valid request that misses the cache and on which the orchestrator call
  raises (its creation or \<open>scrape_all_sources\<close>), the endpoint returns a response, not an
  error: \<open>success\<close> false, no results, both counts zero, and the execution time measured
  from the start of the handler. The orchestrator is called on a cache miss only, which is
  why the miss is a hypothesis.
\<close>

theorem C3_dispatch_failure_fallback:
  assumes "valid_request request"
    and "cache_get (cache st) (t_get env) (cache_key request) = None"
    and "orchestrator env = CreateRaises \<or> orchestrator env = ScrapeRaises"
  shows "fst (post_scrape st env request) =
           Inr \<lparr> success = False, query = ScrapeRequest.query request, results = [],
                 total_sources = 0, successful_sources = 0,
                 execution_time = t_end env - t_start env \<rparr>"
  using assms
  by (auto simp: post_scrape_def split_beta scrape_sources_response fallback_response_def)

theorem C3_dispatch_failure_fallback_witness:
  "valid_request example_request \<and>
   cache_get (cache state0) (t_get env_failing) (cache_key example_request) = None \<and>
   orchestrator env_failing = CreateRaises \<and>
   fst (post_scrape state0 env_failing example_request) =
     Inr \<lparr> success = False, query = ''Neural Networks'', results = [], total_sources = 0,
           successful_sources = 0, execution_time = 2 \<rparr>"
  using C3_dispatch_failure_fallback [of example_request state0 env_failing]
    example_valid state0_miss env_failing_orchestrator
  by (simp add: example_request_def env_failing_def)

subsection \<open>C4: a repeated request is served from the cache\<close>

text \<open>
  C4 as it is written fails for a request whose first invocation ends in the fallback:
  nothing is stored, so the second invocation, with nothing expired in between, creates and
  calls the orchestrator again and may return another response.
\<close>

theorem C4_counterexample:
  "cache_get (cache state0) (t_get env_failing) (cache_key example_request) = None \<and>
   fst (scrape_sources state0 env_failing example_request) =
     \<lparr> success = False, query = ''Neural Networks'', results = [], total_sources = 0,
       successful_sources = 0, execution_time = 2 \<rparr> \<and>
   store (cache state_failed) = Map.empty \<and>
   calls state_failed = [CreateOrchestrator] \<and>
   fst (scrape_sources state_failed env_fresh example_request) = example_response \<and>
   fst (scrape_sources state_failed env_fresh example_request) \<noteq>
     fst (scrape_sources state0 env_failing example_request) \<and>
   calls (snd (scrape_sources state_failed env_fresh example_request)) =
     [CreateOrchestrator, CreateOrchestrator,
      ScrapeAllSources ''Neural Networks'' (Some [''wikipedia'', ''pubmed''])]"
  by (simp add: state0_miss failed_call retry_response retry_calls)
     (simp add: state_failed_eq state0_def initial_state_def example_response_def)

text \<open>
  C4, amended. For every scrape request whose first invocation is served from the cache or
  completes its dispatch without a failure, a second invocation in sequence, with no expiry
  of the entry of its key in between, returns a response identical to the first and
  performs no scraper invocation: the orchestrator is neither created nor called, and no
  per-source counter moves.
\<close>

theorem C4_cached_response_repeated:
  assumes first: "cache_get (cache st) (t_get env1) (cache_key request) \<noteq> None \<or>
                  (\<exists>rs. orchestrator env1 = Returned rs)"
    and live: "\<forall>e. store (cache (snd (scrape_sources st env1 request))) (cache_key request)
                      = Some e \<longrightarrow> entry_live e (t_get env2)"
  shows "fst (scrape_sources (snd (scrape_sources st env1 request)) env2 request) =
           fst (scrape_sources st env1 request) \<and>
         calls (snd (scrape_sources (snd (scrape_sources st env1 request)) env2 request)) =
           calls (snd (scrape_sources st env1 request)) \<and>
         scrape_counter (snd (scrape_sources (snd (scrape_sources st env1 request)) env2 request)) =
           scrape_counter (snd (scrape_sources st env1 request))"
proof -
  let ?r1 = "fst (scrape_sources st env1 request)"
  let ?st1 = "snd (scrape_sources st env1 request)"
  have "\<exists>e. store (cache ?st1) (cache_key request) = Some e \<and> stored e = ?r1"
  proof (cases "cache_get (cache st) (t_get env1) (cache_key request)")
    case (Some c)
    then show ?thesis
      by (auto simp: scrape_sources_hit cache_get_def split: option.splits if_splits)
  next
    case None
    with first obtain rs where "orchestrator env1 = Returned rs" by auto
    with None show ?thesis
      by (simp add: scrape_sources_cache scrape_sources_response cache_set_def)
  qed
  then obtain e where e: "store (cache ?st1) (cache_key request) = Some e" "stored e = ?r1"
    by blast
  with live have "cache_get (cache ?st1) (t_get env2) (cache_key request) = Some ?r1"
    by (simp add: cache_get_def)
  then show ?thesis by (simp add: scrape_sources_hit)
qed

text \<open>The request computed at time 100 and repeated at time 110, the entry living 60.\<close>

theorem C4_cached_response_repeated_witness:
  "orchestrator env_fresh = Returned example_results \<and>
   store (cache state1) (cache_key example_request) =
     Some \<lparr>stored = example_response, created = 101, ttl = 60\<rparr> \<and>
   entry_live \<lparr>stored = example_response, created = 101, ttl = 60\<rparr> (t_get env_again) \<and>
   fst (scrape_sources state0 env_fresh example_request) = example_response \<and>
   fst (scrape_sources state1 env_again example_request) = example_response \<and>
   calls (snd (scrape_sources state1 env_again example_request)) = calls state1 \<and>
   scrape_counter (snd (scrape_sources state1 env_again example_request)) =
     scrape_counter state1"
proof -
  have s: "store (cache state1) (cache_key example_request) =
     Some \<lparr>stored = example_response, created = 101, ttl = 60\<rparr>"
    by (simp add: state1_cache example_key)
  have l: "entry_live \<lparr>stored = example_response, created = 101, ttl = 60\<rparr> (t_get env_again)"
    by (simp add: entry_live_def env_again_def)
  have h1: "cache_get (cache state0) (t_get env_fresh) (cache_key example_request) \<noteq> None \<or>
            (\<exists>rs. orchestrator env_fresh = Returned rs)"
    by (simp add: env_fresh_orchestrator)
  have h2: "\<forall>e. store (cache (snd (scrape_sources state0 env_fresh example_request)))
                 (cache_key example_request) = Some e \<longrightarrow> entry_live e (t_get env_again)"
    using s l by (simp add: state1_def)
  show ?thesis
    using C4_cached_response_repeated [OF h1 h2] s l env_fresh_orchestrator first_response
    by (simp add: state1_def)
qed

subsection \<open>C5: one of the two cache counters moves\<close>

text \<open>
  C5. For every request that passes validation, exactly one of the two counters is
  incremented, by one: \<open>cache_hits\<close> when the cache lookup returns a stored response,
  \<open>cache_misses\<close> otherwise; the other counter keeps its value.
\<close>

theorem C5_hit_or_miss_counted_once:
  assumes "valid_request request"
  shows "(let st' = snd (post_scrape st env request) in
          case cache_get (cache st) (t_get env) (cache_key request) of
            Some c \<Rightarrow> cache_hits st' = cache_hits st + 1 \<and> cache_misses st' = cache_misses st
          | None \<Rightarrow> cache_hits st' = cache_hits st \<and> cache_misses st' = cache_misses st + 1)"
proof (cases "cache_get (cache st) (t_get env) (cache_key request)")
  case None
  then show ?thesis
    using assms
    by (cases "orchestrator env")
       (simp_all add: post_scrape_def split_beta scrape_sources_create_raises
          scrape_sources_scrape_raises scrape_sources_returned_state)
next
  case (Some c)
  then show ?thesis
    using assms by (simp add: post_scrape_def split_beta scrape_sources_hit)
qed

text \<open>A miss on the initial state, then a hit on the state it leaves.\<close>

theorem C5_hit_or_miss_counted_once_witness:
  "valid_request example_request \<and>
   cache_get (cache state0) (t_get env_fresh) (cache_key example_request) = None \<and>
   cache_hits state0 = 0 \<and> cache_misses state0 = 0 \<and>
   cache_hits (snd (post_scrape state0 env_fresh example_request)) = 0 \<and>
   cache_misses (snd (post_scrape state0 env_fresh example_request)) = 1 \<and>
   cache_get (cache state1) (t_get env_again) (cache_key example_request) =
     Some example_response \<and>
   cache_hits state1 = 0 \<and> cache_misses state1 = 1 \<and>
   cache_hits (snd (post_scrape state1 env_again example_request)) = 1 \<and>
   cache_misses (snd (post_scrape state1 env_again example_request)) = 1"
proof -
  have z: "cache_hits state0 = 0" "cache_misses state0 = 0"
    by (simp_all add: state0_def initial_state_def)
  have h: "cache_get (cache state1) (t_get env_again) (cache_key example_request) =
             Some example_response"
    by (simp add: example_key state1_hit)
  show ?thesis
    using C5_hit_or_miss_counted_once [OF example_valid, of state0 env_fresh]
      C5_hit_or_miss_counted_once [OF example_valid, of state1 env_again]
      example_valid state0_miss z h state1_hits
    by (simp add: Let_def)
qed

subsection \<open>C6: the per-source metrics of a fresh computation\<close>

text \<open>
  C6. For every freshly computed request (a cache miss whose dispatch returns), the request
  counter of each source grows by the number of results of that source in the orchestrator's
  sequence, successful or not: one increment for each result. The latency histogram of each
  source receives exactly the response times that are present among the results of that
  source, in their order: a result is observed if and only if its response time is not
  \<open>None\<close>.
\<close>

theorem C6_per_source_metrics:
  assumes "cache_get (cache st) (t_get env) (cache_key request) = None"
    and "orchestrator env = Returned rs"
  shows "scrape_counter (snd (scrape_sources st env request)) label =
           scrape_counter st label +
           length (filter (\<lambda>r. ScrapingResult.source r = label) rs) \<and>
         scrape_duration (snd (scrape_sources st env request)) label =
           scrape_duration st label @ observations label rs"
  using assms by (simp add: scrape_sources_returned_state)

text \<open>
  The failed PubMed result, which carries no response time, is counted and not observed.
\<close>

theorem C6_per_source_metrics_witness:
  "cache_get (cache state0) (t_get env_fresh) (cache_key example_request) = None \<and>
   orchestrator env_fresh = Returned example_results \<and>
   scrape_counter state1 ''wikipedia'' = 1 \<and> scrape_duration state1 ''wikipedia'' = [1 / 4] \<and>
   scrape_counter state1 ''pubmed'' = 1 \<and> scrape_duration state1 ''pubmed'' = []"
  using C6_per_source_metrics [where st = state0 and env = env_fresh and request = example_request
      and rs = example_results and label = "''wikipedia''"]
    C6_per_source_metrics [where st = state0 and env = env_fresh and request = example_request
      and rs = example_results and label = "''pubmed''"]
    state0_miss env_fresh_orchestrator
  by (simp add: state1_def)
     (simp add: state0_def initial_state_def example_results_def observations_def)

subsection \<open>C7: the \<open>cached\<close> flag of the result records\<close>

text \<open>
  C7 as it is written fails on the cache-hit path: the stored response is returned as it
  was built, so the records of a response served from the cache carry \<open>cached = False\<close>.
  Below, the second call is a hit (the hit counter is 1, the trace of orchestrator calls is
  that of the first call) and both records of its response have the flag false.
\<close>

theorem C7_counterexample:
  "serve state0 [(env_fresh, example_request), (env_again, example_request)] =
     ([Inr example_response, Inr example_response], state1\<lparr>cache_hits := 1\<rparr>) \<and>
   calls (state1\<lparr>cache_hits := 1\<rparr>) = calls state1 \<and>
   cache_hits (state1\<lparr>cache_hits := 1\<rparr>) = 1 \<and>
   map cached (results example_response) = [False, False]"
  unfolding example_serve by (simp add: example_response_def)

text \<open>
  C7, amended. Every record in the results sequence of a response carries a \<open>cached\<close> flag
  that is false: for every freshly computed response, and also when the response is served
  from the cache, which returns the stored response unchanged. The statement is about any
  sequence of requests served from a state whose cache holds responses with unflagged
  records only, as the empty cache does.
\<close>

theorem C7_cached_flag_always_false:
  assumes "cache_all unflagged (cache st)"
    and "Inr r \<in> set (fst (serve st reqs))"
    and "d \<in> set (results r)"
  shows "\<not> cached d"
proof -
  have "unflagged r"
    using serve_invariant [of unflagged st r reqs] assms(1,2)
      aggregate_unflagged fallback_unflagged by blast
  then show ?thesis using assms(3) by (simp add: unflagged_def)
qed

theorem C7_cached_flag_always_false_witness:
  "cache_all unflagged (cache state0) \<and>
   Inr example_response \<in>
     set (fst (serve state0 [(env_fresh, example_request), (env_again, example_request)])) \<and>
   hd (results example_response) \<in> set (results example_response) \<and>
   result_dict.source (hd (results example_response)) = ''wikipedia'' \<and>
   \<not> cached (hd (results example_response))"
proof -
  have c: "cache_all unflagged (cache state0)"
    by (rule cache_all_empty) (simp add: state0_def initial_state_def)
  have m: "Inr example_response \<in>
     set (fst (serve state0 [(env_fresh, example_request), (env_again, example_request)]))"
    unfolding example_serve by simp
  have d: "hd (results example_response) \<in> set (results example_response)"
    by (simp add: example_response_def)
  show ?thesis
    using c m d C7_cached_flag_always_false [OF c m d]
    by (simp add: example_response_def)
qed

subsection \<open>C8: the query of the response\<close>

text \<open>
  C8 as it is written fails on the cache-hit path: a request whose query differs from the
  stored one in letter case or surrounding white space has the same cache key, and is
  answered with the stored response, whose query is the one of the earlier request.
\<close>

theorem C8_counterexample:
  "cache_get (cache state1) (t_get env_again) (cache_key padded_request) =
     Some example_response \<and>
   fst (scrape_sources state1 env_again padded_request) = example_response \<and>
   query (fst (scrape_sources state1 env_again padded_request)) = ''Neural Networks'' \<and>
   ScrapeRequest.query padded_request = '' neural networks  '' \<and>
   query (fst (scrape_sources state1 env_again padded_request)) \<noteq>
     ScrapeRequest.query padded_request"
  by (simp add: padded_call padded_key state1_hit)
     (simp add: example_response_def padded_request_def)

text \<open>
  C8, amended. On the cache-miss path (fresh computation and fallback) the query field of
  the response equals the query string of the request being answered. On the cache-hit
  path the response is the stored response, unchanged, so its query field is the query
  string of the earlier request that stored the entry: a request with the same cache key,
  whose query need not be the string of the request being answered.

  The four parts of the statement: the miss path echoes the query; a hit returns the value
  the cache gives, which belongs to a request with the key of the one being answered; the
  handler keeps the cache so (\<open>cache_keyed\<close>); and after a fresh computation for
  \<open>request\<close>, any request with the same key that arrives before the entry expires is
  answered with that response, carrying the query of \<open>request\<close>.
\<close>

theorem C8_query_of_response:
  assumes "cache_keyed (cache st)"
  shows "(cache_get (cache st) (t_get env) (cache_key request) = None \<longrightarrow>
            query (fst (scrape_sources st env request)) = ScrapeRequest.query request) \<and>
         (\<forall>c. cache_get (cache st) (t_get env) (cache_key request) = Some c \<longrightarrow>
            fst (scrape_sources st env request) = c \<and>
            (\<exists>s. cache_key \<lparr>ScrapeRequest.query = query c, sources = s\<rparr> = cache_key request)) \<and>
         cache_keyed (cache (snd (scrape_sources st env request))) \<and>
         (\<forall>rs. cache_get (cache st) (t_get env) (cache_key request) = None \<and>
            orchestrator env = Returned rs \<and>
            cache_key request2 = cache_key request \<and>
            t_get env2 - t_set env < default_ttl (cache st) \<longrightarrow>
            fst (scrape_sources (snd (scrape_sources st env request)) env2 request2) =
              fst (scrape_sources st env request) \<and>
            query (fst (scrape_sources (snd (scrape_sources st env request)) env2 request2)) =
              ScrapeRequest.query request)"
proof (intro conjI allI impI)
  assume "cache_get (cache st) (t_get env) (cache_key request) = None"
  then show "query (fst (scrape_sources st env request)) = ScrapeRequest.query request"
    by (cases "orchestrator env")
       (simp_all add: scrape_sources_response aggregate_def fallback_response_def)
next
  fix c
  assume "cache_get (cache st) (t_get env) (cache_key request) = Some c"
  then show "fst (scrape_sources st env request) = c"
    by (simp add: scrape_sources_hit)
next
  fix c
  assume hit: "cache_get (cache st) (t_get env) (cache_key request) = Some c"
  then obtain e where "store (cache st) (cache_key request) = Some e" "stored e = c"
    by (auto simp: cache_get_def split: option.splits if_splits)
  with assms
  show "\<exists>s. cache_key \<lparr>ScrapeRequest.query = query c, sources = s\<rparr> = cache_key request"
    by (auto simp: cache_keyed_def)
next
  have k: "cache_key \<lparr>ScrapeRequest.query = ScrapeRequest.query request,
                      sources = sources request\<rparr> = cache_key request"
    by (simp add: cache_key_def sources_or_empty_def)
  have set_keyed: "cache_keyed (cache_set (cache st) (t_set env) (cache_key request)
            (aggregate env request rs))" for rs
    unfolding cache_keyed_def
  proof (intro allI impI)
    fix k' e
    assume s: "store (cache_set (cache st) (t_set env) (cache_key request)
                 (aggregate env request rs)) k' = Some e"
    show "\<exists>s. cache_key \<lparr>ScrapeRequest.query = query (stored e), sources = s\<rparr> = k'"
    proof (cases "k' = cache_key request")
      case True
      with s have "query (stored e) = ScrapeRequest.query request"
        by (auto simp: cache_set_def aggregate_def)
      with True k show ?thesis by metis
    next
      case False
      with s have "store (cache st) k' = Some e" by (simp add: cache_set_def)
      with assms show ?thesis by (auto simp: cache_keyed_def)
    qed
  qed
  show "cache_keyed (cache (snd (scrape_sources st env request)))"
    using assms set_keyed
    by (simp add: scrape_sources_cache split: option.split outcome.split)
next
  fix rs
  assume h: "cache_get (cache st) (t_get env) (cache_key request) = None \<and>
            orchestrator env = Returned rs \<and>
            cache_key request2 = cache_key request \<and>
            t_get env2 - t_set env < default_ttl (cache st)"
  let ?st1 = "snd (scrape_sources st env request)"
  have r1: "fst (scrape_sources st env request) = aggregate env request rs"
    using h by (simp add: scrape_sources_returned_response)
  have "cache ?st1 =
          cache_set (cache st) (t_set env) (cache_key request) (aggregate env request rs)"
    using h by (simp add: scrape_sources_returned_state(1))
  then have "cache_get (cache ?st1) (t_get env2) (cache_key request2) =
               Some (aggregate env request rs)"
    using h by (simp add: cache_get_def cache_set_def entry_live_def)
  then have r2: "fst (scrape_sources ?st1 env2 request2) = aggregate env request rs"
    by (simp add: scrape_sources_hit)
  show "fst (scrape_sources ?st1 env2 request2) = fst (scrape_sources st env request)"
    using r1 r2 by simp
  show "query (fst (scrape_sources ?st1 env2 request2)) = ScrapeRequest.query request"
    using r2 by (simp add: aggregate_def)
qed

text \<open>
  A miss on the initial state echoes the query; the padded lower-case query that follows
  has the same key and is answered with the stored response and its stored query.
\<close>

theorem C8_query_of_response_witness:
  "cache_keyed (cache state0) \<and>
   cache_get (cache state0) (t_get env_fresh) (cache_key example_request) = None \<and>
   query (fst (scrape_sources state0 env_fresh example_request)) =
     ScrapeRequest.query example_request \<and>
   cache_keyed (cache state1) \<and>
   cache_get (cache state1) (t_get env_again) (cache_key padded_request) =
     Some example_response \<and>
   fst (scrape_sources state1 env_again padded_request) = example_response \<and>
   orchestrator env_fresh = Returned example_results \<and>
   cache_key padded_request = cache_key example_request \<and>
   t_get env_again - t_set env_fresh < default_ttl (cache state0) \<and>
   query (fst (scrape_sources state1 env_again padded_request)) = ''Neural Networks'' \<and>
   ScrapeRequest.query example_request = ''Neural Networks'' \<and>
   ScrapeRequest.query padded_request = '' neural networks  ''"
proof -
  have k0: "cache_keyed (cache state0)"
    by (simp add: cache_keyed_def state0_def initial_state_def)
  note main = C8_query_of_response [OF k0, of env_fresh example_request padded_request env_again]
  have k1: "cache_keyed (cache state1)"
    using main by (simp add: state1_def)
  have q: "query (fst (scrape_sources state0 env_fresh example_request)) =
     ScrapeRequest.query example_request"
    using main state0_miss by simp
  have hit: "cache_get (cache state1) (t_get env_again) (cache_key padded_request) =
     Some example_response"
    by (simp add: padded_key state1_hit)
  have r: "fst (scrape_sources state1 env_again padded_request) = example_response"
    using C8_query_of_response [OF k1, of env_again padded_request padded_request env_again] hit by simp
  have keys: "cache_key padded_request = cache_key example_request"
    by (simp add: padded_key example_key)
  have t: "t_get env_again - t_set env_fresh < default_ttl (cache state0)"
    by (simp add: env_again_def env_fresh_def state0_def initial_state_def)
  have q2: "query (fst (scrape_sources state1 env_again padded_request)) =
              ScrapeRequest.query example_request"
    using main state0_miss env_fresh_orchestrator keys t by (simp add: state1_def)
  have n: "ScrapeRequest.query example_request = ''Neural Networks''"
     "ScrapeRequest.query padded_request = '' neural networks  ''"
    by (simp_all add: example_request_def padded_request_def)
  show ?thesis
    using k0 k1 q hit r keys t q2 n state0_miss env_fresh_orchestrator by simp
qed

subsection \<open>C9: an invalid query is rejected before the handler runs\<close>

text \<open>
  C9. For every request whose query is empty or longer than 500 characters, the endpoint
  answers with a validation error and the state is the one before the request: no cache
  lookup or write, no dispatch, and no counter or histogram changes.
\<close>

theorem C9_invalid_query_rejected:
  assumes "length (ScrapeRequest.query request) = 0 \<or>
           500 < length (ScrapeRequest.query request)"
  shows "post_scrape st env request = (Inl ValidationError, st)"
  using assms by (auto simp: post_scrape_def valid_request_def)

text \<open>The empty query, and a query of 501 characters, sent to a server with a filled cache.\<close>

theorem C9_invalid_query_rejected_witness:
  "length (ScrapeRequest.query empty_request) = 0 \<and>
   post_scrape state1 env_again empty_request = (Inl ValidationError, state1) \<and>
   500 < length (ScrapeRequest.query long_request) \<and>
   post_scrape state1 env_again long_request = (Inl ValidationError, state1)"
proof -
  have 1: "length (ScrapeRequest.query empty_request) = 0"
    by (simp add: empty_request_def)
  have 2: "500 < length (ScrapeRequest.query long_request)"
    by (simp add: long_request_def)
  show ?thesis
    using 1 2 C9_invalid_query_rejected [of empty_request state1 env_again]
      C9_invalid_query_rejected [of long_request state1 env_again]
    by simp
qed

subsection \<open>C10: the fallback response is not cached\<close>

text \<open>
  C10. When a dispatch failure makes the handler return the fallback response, the cache
  is left as it was, so a subsequent identical request (its lookup not earlier than the
  first one's) misses again and creates the orchestrator again. The cache changes only
  when a dispatch has returned, and then by the write of the aggregated response under the
  key of the request.
\<close>

theorem C10_fallback_not_cached:
  "(cache_get (cache st) (t_get env) (cache_key request) = None \<and>
    (orchestrator env = CreateRaises \<or> orchestrator env = ScrapeRaises) \<longrightarrow>
      cache (snd (scrape_sources st env request)) = cache st \<and>
      (t_get env \<le> t_get env2 \<longrightarrow>
         (\<exists>cs. calls (snd (scrape_sources (snd (scrape_sources st env request)) env2 request)) =
            calls (snd (scrape_sources st env request)) @ CreateOrchestrator # cs))) \<and>
   (cache (snd (scrape_sources st env request)) \<noteq> cache st \<longrightarrow>
      cache_get (cache st) (t_get env) (cache_key request) = None \<and>
      (\<exists>rs. orchestrator env = Returned rs \<and>
         cache (snd (scrape_sources st env request)) =
           cache_set (cache st) (t_set env) (cache_key request)
             (fst (scrape_sources st env request))))"
proof -
  let ?st1 = "snd (scrape_sources st env request)"
  have changed: "cache ?st1 \<noteq> cache st \<longrightarrow>
      cache_get (cache st) (t_get env) (cache_key request) = None \<and>
      (\<exists>rs. orchestrator env = Returned rs \<and>
         cache ?st1 = cache_set (cache st) (t_set env) (cache_key request)
             (fst (scrape_sources st env request)))"
    by (auto simp: scrape_sources_cache scrape_sources_response
          split: option.splits outcome.splits)
  have failed: "cache ?st1 = cache st \<and>
      (t_get env \<le> t_get env2 \<longrightarrow>
         (\<exists>cs. calls (snd (scrape_sources ?st1 env2 request)) =
            calls ?st1 @ CreateOrchestrator # cs))"
    if miss: "cache_get (cache st) (t_get env) (cache_key request) = None"
      and raises: "orchestrator env = CreateRaises \<or> orchestrator env = ScrapeRaises"
  proof -
    have same: "cache ?st1 = cache st"
      using miss raises by (auto simp: scrape_sources_cache)
    have "\<exists>cs. calls (snd (scrape_sources ?st1 env2 request)) =
            calls ?st1 @ CreateOrchestrator # cs"
      if later: "t_get env \<le> t_get env2"
    proof -
      have miss2: "cache_get (cache ?st1) (t_get env2) (cache_key request) = None"
        using same miss later cache_get_mono by metis
      show ?thesis
        using miss2
        by (cases "orchestrator env2")
           (simp_all add: scrape_sources_create_raises scrape_sources_scrape_raises
              scrape_sources_returned_state(4))
    qed
    with same show ?thesis by blast
  qed
  from changed failed show ?thesis by blast
qed

text \<open>
  The failing call at time 90 leaves the empty cache empty and the request, repeated at
  time 100, is dispatched; that dispatch returns, and its response is stored.
\<close>

theorem C10_fallback_not_cached_witness:
  "cache_get (cache state0) (t_get env_failing) (cache_key example_request) = None \<and>
   orchestrator env_failing = CreateRaises \<and>
   cache state_failed = cache state0 \<and>
   t_get env_failing \<le> t_get env_fresh \<and>
   calls state_failed = [CreateOrchestrator] \<and>
   calls (snd (scrape_sources state_failed env_fresh example_request)) =
     [CreateOrchestrator, CreateOrchestrator,
      ScrapeAllSources ''Neural Networks'' (Some [''wikipedia'', ''pubmed''])] \<and>
   cache state1 \<noteq> cache state0 \<and>
   orchestrator env_fresh = Returned example_results \<and>
   cache state1 =
     cache_set (cache state0) (t_set env_fresh) (cache_key example_request) example_response"
proof -
  have t: "t_get env_failing \<le> t_get env_fresh"
    by (simp add: env_failing_def env_fresh_def)
  have ne: "cache state1 \<noteq> cache state0"
  proof
    assume "cache state1 = cache state0"
    then have "store (cache state1) ''neural networks|wikipedia,pubmed'' =
               store (cache state0) ''neural networks|wikipedia,pubmed''"
      by simp
    then show False by (simp add: state1_cache state0_def initial_state_def)
  qed
  have a: "cache state_failed = cache state0"
    using C10_fallback_not_cached [of state0 env_failing example_request env_fresh]
      state0_miss env_failing_orchestrator
    by (simp add: state_failed_def)
  have b: "cache state1 =
     cache_set (cache state0) (t_set env_fresh) (cache_key example_request) example_response"
    using C10_fallback_not_cached [of state0 env_fresh example_request env_fresh] ne
      env_fresh_orchestrator first_response
    by (simp add: state1_def)
  show ?thesis
    using a b t ne state0_miss env_failing_orchestrator env_fresh_orchestrator retry_calls
    by (simp add: state_failed_eq)
qed

end
